theory Spec2Isabelle
  imports Complex_Main
begin

section \<open>EduScribe streaming pipeline: data model\<close>

text \<open>
  Shallow embedding of \<^verbatim>\<open>backend/optimized_main.py\<close>: the per-lecture worker
  \<^verbatim>\<open>OptimizedAudioProcessor.process_lecture_audio\<close>, the mid-stream synthesis
  \<^verbatim>\<open>synthesize_notes\<close>, \<^verbatim>\<open>final_synthesis\<close>, the intake
  \<^verbatim>\<open>process_audio_chunk\<close> and the control part of \<^verbatim>\<open>websocket_endpoint\<close>.

  Conventions of the embedding.
  \<^item> The \<^verbatim>\<open>defaultdict\<close>s of the processor are total functions from the lecture id
    (a missing key reads as the default: the empty list, \<open>0.0\<close>, an empty queue);
    the plain dict \<^verbatim>\<open>processing_tasks\<close> is a partial map.
  \<^item> \<^verbatim>\<open>time.time()\<close> is a real number of seconds. The readings are doubles near
    \<open>1.7e9\<close>; the difference of two of them, and of one and \<open>0.0\<close>, is exact in
    binary64, so the comparison with \<open>60\<close> is the comparison on reals.
  \<^item> The external collaborators (transcription, retrieval, enrichment, scoring, topic
    shift, the two synthesizers, the transport) are fields of an environment record:
    each returns \<open>Inr\<close> of its value or \<open>Inl\<close> of the message of the exception it
    raised. One environment describes what the collaborators answer during one round.
  \<^item> Every call with an effect outside the processor is appended to \<open>trace\<close>, in program
    order, at the moment of the call: \<open>Send\<close> is a call of
    \<^verbatim>\<open>websocket.send_json\<close>, \<open>Save\<close> a call of one of the
    \<^verbatim>\<open>save_*\<close> functions, \<open>Sleep\<close> of \<^verbatim>\<open>asyncio.sleep\<close>.
    A \<^verbatim>\<open>save_*\<close> call sits in its own \<^verbatim>\<open>try/except Exception\<close> whose
    handler only logs, so both outcomes continue in the same way and the outcome is not
    part of the environment. Logging is not modelled.
  \<^item> An exception is a value: a function whose source body can let an exception escape
    returns \<open>Some msg\<close> next to the state reached when it was raised.
\<close>

type_synonym lecture_id = string
type_synonym websocket = nat
type_synonym exn = string
type_synonym snote = string
type_synonym rag_context = "string list"

text \<open>The temporary file \<^verbatim>\<open>chunk_{lecture_id}_{timestamp}.wav\<close>.\<close>
type_synonym file_path = "lecture_id \<times> int"

text \<open>The dict \<^verbatim>\<open>transcription_data\<close> stored in the buffer.\<close>
record fragment =
  frag_text :: string
  frag_timestamp :: int
  frag_language :: "string option"
  frag_duration :: "real option"

text \<open>The work item put on \<^verbatim>\<open>audio_queues[lecture_id]\<close>.\<close>
record chunk_data =
  cd_file_path :: file_path
  cd_timestamp :: int
  cd_websocket :: websocket

text \<open>The dict returned by \<^verbatim>\<open>transcribe_local\<close>; a key may be absent.\<close>
record transcription_result =
  tr_text :: "string option"
  tr_language :: "string option"
  tr_duration :: "real option"
  tr_segments :: "string list option"

text \<open>The dict returned by \<^verbatim>\<open>synthesize_structured_notes\<close>.\<close>
record synthesis_result =
  sr_success :: "bool option"
  sr_structured_notes :: "snote option"
  sr_error :: "string option"

text \<open>The dict returned by \<^verbatim>\<open>synthesize_final_notes\<close>.\<close>
record final_result =
  fr_success :: "bool option"
  fr_title :: "string option"
  fr_markdown :: "string option"
  fr_sections :: "string list option"
  fr_glossary :: "string list option"
  fr_key_takeaways :: "string list option"

datatype event =
    Ev_connection_confirmed
  | Ev_recording_started
  | Ev_recording_stopped
  | Ev_transcription string string int nat
  | Ev_synthesis_started
  | Ev_structured_notes snote int nat
  | Ev_synthesis_error string
  | Ev_final_synthesis_started
  | Ev_final_notes string string "string list" "string list" "string list" int
  | Ev_final_synthesis_error string

datatype saved =
    Saved_transcription lecture_id nat string string int real
  | Saved_structured_notes lecture_id snote nat
  | Saved_final_notes lecture_id string string "string list" "string list" "string list"

datatype action =
    Send websocket event
  | Save saved
  | Sleep nat
  | Write_file file_path
  | Unlink file_path
  | Call_transcribe file_path
  | Call_query string lecture_id nat
  | Call_enrich string rag_context lecture_id
  | Call_score string "string list"
  | Call_detect string "string list"
  | Call_synthesize "fragment list" rag_context lecture_id "snote option"
  | Call_final lecture_id "snote list" rag_context

datatype task_status = Running | Cancelled | Faulted

record state =
  transcription_buffers :: "lecture_id \<Rightarrow> fragment list"
  last_synthesis_time :: "lecture_id \<Rightarrow> real"
  structured_notes_history :: "lecture_id \<Rightarrow> snote list"
  audio_queues :: "lecture_id \<Rightarrow> chunk_data list"
  processing_tasks :: "lecture_id \<rightharpoonup> nat"
  tasks :: "(lecture_id \<times> task_status) list"
  active_connections :: "lecture_id \<rightharpoonup> websocket"
  trace :: "action list"

record env =
  transcribe_local :: "file_path \<Rightarrow> exn + transcription_result"
  query_documents :: "string \<Rightarrow> lecture_id \<Rightarrow> nat \<Rightarrow> exn + rag_context"
  generate_raw_notes :: "string \<Rightarrow> rag_context \<Rightarrow> lecture_id \<Rightarrow> exn + string"
  score_importance :: "string \<Rightarrow> string list \<Rightarrow> exn + real option"
  detect_topic_shift :: "string \<Rightarrow> string list \<Rightarrow> exn + bool"
  synthesize_structured_notes ::
    "fragment list \<Rightarrow> rag_context \<Rightarrow> lecture_id \<Rightarrow> snote option \<Rightarrow> exn + synthesis_result"
  synthesize_final_notes :: "lecture_id \<Rightarrow> snote list \<Rightarrow> rag_context \<Rightarrow> exn + final_result"
  send_json :: "websocket \<Rightarrow> event \<Rightarrow> exn option"
  write_file :: "file_path \<Rightarrow> exn option"
  time_intake :: real
  time_trigger :: real
  time_notes_event :: real
  time_synthesis_done :: real
  time_final_event :: real

definition init_state :: state where
  "init_state = \<lparr>transcription_buffers = (\<lambda>_. []), last_synthesis_time = (\<lambda>_. 0),
     structured_notes_history = (\<lambda>_. []), audio_queues = (\<lambda>_. []),
     processing_tasks = Map.empty, tasks = [], active_connections = Map.empty, trace = []\<rparr>"

section \<open>Helpers for the Python primitives\<close>

text \<open>\<^verbatim>\<open>int(x)\<close> on a float truncates towards zero.\<close>
definition py_int :: "real \<Rightarrow> int" where
  "py_int x = (if 0 \<le> x then \<lfloor>x\<rfloor> else \<lceil>x\<rceil>)"

text \<open>\<^verbatim>\<open>" ".join(xs)\<close>.\<close>
fun join_space :: "string list \<Rightarrow> string" where
  "join_space [] = []"
| "join_space [x] = x"
| "join_space (x # y # ys) = x @ '' '' @ join_space (y # ys)"

text \<open>
  The characters \<^verbatim>\<open>str.strip()\<close> removes, among the code points below 256:
  tab, line feed, vertical tab, form feed, carriage return, the separators
  \<open>0x1C\<close> to \<open>0x1F\<close>, space, \<open>0x85\<close> and \<open>0xA0\<close>.
\<close>
definition is_space :: "char \<Rightarrow> bool" where
  "is_space c = (of_char c \<in> set [9, 10, 11, 12, 13, 28, 29, 30, 31, 32, 133, 160 :: nat])"

definition strip :: "string \<Rightarrow> string" where
  "strip xs = rev (dropWhile is_space (rev (dropWhile is_space xs)))"

text \<open>\<^verbatim>\<open>xs[-3:]\<close>, \<^verbatim>\<open>xs[-1:]\<close> and \<^verbatim>\<open>xs[:-1]\<close>: never out of range.\<close>
definition last_three :: "'a list \<Rightarrow> 'a list" where
  "last_three xs = drop (length xs - 3) xs"

definition last_one :: "'a list \<Rightarrow> 'a list" where
  "last_one xs = drop (length xs - 1) xs"

definition all_but_last :: "'a list \<Rightarrow> 'a list" where
  "all_but_last xs = take (length xs - 1) xs"

definition record_action :: "action \<Rightarrow> state \<Rightarrow> state" where
  "record_action a s = s\<lparr>trace := trace s @ [a]\<rparr>"

text \<open>\<^verbatim>\<open>await websocket.send_json(ev)\<close>: the call is made, and may raise.\<close>
definition push :: "env \<Rightarrow> websocket \<Rightarrow> event \<Rightarrow> state \<Rightarrow> exn option \<times> state" where
  "push e ws ev s = (send_json e ws ev, record_action (Send ws ev) s)"

section \<open>Mid-stream synthesis\<close>

text \<open>\<^verbatim>\<open>str(KeyError(k))\<close> is the key between single quotes.\<close>
definition key_error :: "string \<Rightarrow> exn" where
  "key_error k = [CHR 0x27] @ k @ [CHR 0x27]"

text \<open>
  The body of the \<^verbatim>\<open>try\<close> of \<^verbatim>\<open>synthesize_notes\<close> (lines 253 to 315).
  \<open>None\<close> is a normal return, \<open>Some msg\<close> an exception raised inside the body;
  \<^verbatim>\<open>synthesis_result["success"]\<close> and \<^verbatim>\<open>["structured_notes"]\<close> raise
  \<^verbatim>\<open>KeyError\<close> on a missing key.
\<close>
definition synthesize_notes_body ::
  "env \<Rightarrow> lecture_id \<Rightarrow> websocket \<Rightarrow> state \<Rightarrow> exn option \<times> state" where
  "synthesize_notes_body e lecture_id ws s =
    (let transcriptions = last_three (transcription_buffers s lecture_id) in
     if transcriptions = [] then (None, s)
     else
      (let combined_text = join_space (map frag_text transcriptions);
           s1 = record_action (Call_query combined_text lecture_id 5) s in
       (case query_documents e combined_text lecture_id 5 of
          Inl err \<Rightarrow> (Some err, s1)
        | Inr rag \<Rightarrow>
           (let previous_notes =
                  (if structured_notes_history s1 lecture_id \<noteq> []
                   then Some (last (structured_notes_history s1 lecture_id)) else None) in
            (case push e ws Ev_synthesis_started s1 of
               (Some err, s2) \<Rightarrow> (Some err, s2)
             | (None, s2) \<Rightarrow>
                (let s3 = record_action
                            (Call_synthesize transcriptions rag lecture_id previous_notes) s2 in
                 (case synthesize_structured_notes e transcriptions rag lecture_id previous_notes of
                    Inl err \<Rightarrow> (Some err, s3)
                  | Inr synthesis_result \<Rightarrow>
                     (case sr_success synthesis_result of
                        None \<Rightarrow> (Some (key_error ''success''), s3)
                      | Some success \<Rightarrow>
                         if success then
                          (case sr_structured_notes synthesis_result of
                             None \<Rightarrow> (Some (key_error ''structured_notes''), s3)
                           | Some structured_notes \<Rightarrow>
                              (let s4 = s3\<lparr>structured_notes_history :=
                                           (structured_notes_history s3)
                                             (lecture_id := structured_notes_history s3 lecture_id
                                                @ [structured_notes])\<rparr>;
                                   s5 = record_action
                                          (Save (Saved_structured_notes lecture_id structured_notes
                                                   (length transcriptions))) s4 in
                               (case push e ws (Ev_structured_notes structured_notes
                                                  (py_int (time_notes_event e * 1000))
                                                  (length transcriptions)) s5 of
                                  (Some err, s6) \<Rightarrow> (Some err, s6)
                                | (None, s6) \<Rightarrow>
                                   (None,
                                    s6\<lparr>last_synthesis_time :=
                                         (last_synthesis_time s6)
                                           (lecture_id := time_synthesis_done e),
                                       transcription_buffers :=
                                         (transcription_buffers s6)
                                           (lecture_id :=
                                              last_one (transcription_buffers s6 lecture_id))\<rparr>))))
                         else (None, s3)))))))))"

text \<open>
  \<^verbatim>\<open>synthesize_notes\<close>: the handler \<^verbatim>\<open>except Exception as e\<close> pushes a
  \<^verbatim>\<open>synthesis_error\<close> event with \<^verbatim>\<open>str(e)\<close>; an exception of that push
  escapes to the caller.
\<close>
definition synthesize_notes ::
  "env \<Rightarrow> lecture_id \<Rightarrow> websocket \<Rightarrow> state \<Rightarrow> exn option \<times> state" where
  "synthesize_notes e lecture_id ws s =
    (case synthesize_notes_body e lecture_id ws s of
       (None, s') \<Rightarrow> (None, s')
     | (Some err, s') \<Rightarrow> push e ws (Ev_synthesis_error err) s')"

section \<open>Final synthesis\<close>

text \<open>
  The five fields read from \<^verbatim>\<open>final_result\<close>, in the order the source reads
  them; the first missing key raises \<^verbatim>\<open>KeyError\<close>.
\<close>
definition final_payload ::
  "final_result \<Rightarrow> exn + (string \<times> string \<times> string list \<times> string list \<times> string list)" where
  "final_payload r =
    (case fr_title r of
       None \<Rightarrow> Inl (key_error ''title'')
     | Some title \<Rightarrow>
        (case fr_markdown r of
           None \<Rightarrow> Inl (key_error ''markdown'')
         | Some markdown \<Rightarrow>
            (case fr_sections r of
               None \<Rightarrow> Inl (key_error ''sections'')
             | Some sections \<Rightarrow>
                (case fr_glossary r of
                   None \<Rightarrow> Inl (key_error ''glossary'')
                 | Some glossary \<Rightarrow>
                    (case fr_key_takeaways r of
                       None \<Rightarrow> Inl (key_error ''key_takeaways'')
                     | Some key_takeaways \<Rightarrow>
                        Inr (title, markdown, sections, glossary, key_takeaways))))))"

text \<open>
  The body of the \<^verbatim>\<open>try\<close> of \<^verbatim>\<open>final_synthesis\<close> (lines 327 to 383).
  When a key of the payload is missing, the \<^verbatim>\<open>KeyError\<close> is first raised while the
  arguments of \<^verbatim>\<open>save_final_notes\<close> are evaluated (caught there, nothing saved) and
  again for the \<^verbatim>\<open>final_notes\<close> event, where it reaches the outer handler.
\<close>
definition final_synthesis_body ::
  "env \<Rightarrow> lecture_id \<Rightarrow> websocket \<Rightarrow> state \<Rightarrow> exn option \<times> state" where
  "final_synthesis_body e lecture_id ws s =
    (let all_structured_notes = structured_notes_history s lecture_id in
     if all_structured_notes = [] then (None, s)
     else
      (case push e ws Ev_final_synthesis_started s of
         (Some err, s1) \<Rightarrow> (Some err, s1)
       | (None, s1) \<Rightarrow>
          (let all_transcriptions =
                 join_space (map frag_text (transcription_buffers s1 lecture_id));
               s2 = record_action (Call_query all_transcriptions lecture_id 15) s1 in
           (case query_documents e all_transcriptions lecture_id 15 of
              Inl err \<Rightarrow> (Some err, s2)
            | Inr rag \<Rightarrow>
               (let s3 = record_action (Call_final lecture_id all_structured_notes rag) s2 in
                (case synthesize_final_notes e lecture_id all_structured_notes rag of
                   Inl err \<Rightarrow> (Some err, s3)
                 | Inr final_result \<Rightarrow>
                    (case fr_success final_result of
                       None \<Rightarrow> (Some (key_error ''success''), s3)
                     | Some success \<Rightarrow>
                        if success then
                         (case final_payload final_result of
                            Inl err \<Rightarrow> (Some err, s3)
                          | Inr (title, markdown, sections, glossary, key_takeaways) \<Rightarrow>
                             push e ws
                               (Ev_final_notes title markdown sections glossary key_takeaways
                                  (py_int (time_final_event e * 1000)))
                               (record_action
                                  (Save (Saved_final_notes lecture_id title markdown sections
                                           glossary key_takeaways)) s3))
                        else (None, s3))))))))"

text \<open>
  \<^verbatim>\<open>final_synthesis\<close>: the handler pushes \<^verbatim>\<open>final_synthesis_error\<close> with
  \<^verbatim>\<open>str(e)\<close>.
\<close>
definition final_synthesis ::
  "env \<Rightarrow> lecture_id \<Rightarrow> websocket \<Rightarrow> state \<Rightarrow> exn option \<times> state" where
  "final_synthesis e lecture_id ws s =
    (case final_synthesis_body e lecture_id ws s of
       (None, s') \<Rightarrow> (None, s')
     | (Some err, s') \<Rightarrow> push e ws (Ev_final_synthesis_error err) s')"

section \<open>The worker\<close>

text \<open>
  How one pass of the \<^verbatim>\<open>while True\<close> body ends: \<open>Next\<close> goes back to the
  queue (\<^verbatim>\<open>continue\<close> or the end of the body), \<open>Fatal\<close> is an exception that
  reaches the outer \<^verbatim>\<open>except Exception\<close>, which logs it and ends the task.
\<close>
datatype outcome = Next | Fatal exn

text \<open>
  Lines 210 to 233: the value of \<^verbatim>\<open>should_synthesize\<close>, or the exception of
  \<^verbatim>\<open>detect_topic_shift\<close>. With three or more fragments
  \<^verbatim>\<open>recent_transcriptions\<close> has three texts, so \<^verbatim>\<open>[-1]\<close> is \<open>last\<close>.
\<close>
definition should_synthesize :: "env \<Rightarrow> lecture_id \<Rightarrow> state \<Rightarrow> (exn + bool) \<times> state" where
  "should_synthesize e lecture_id s =
    (let buffer_size = length (transcription_buffers s lecture_id);
         current_time = time_trigger e;
         last_synthesis = last_synthesis_time s lecture_id in
     if buffer_size \<ge> 3 then
      (let time_since_last = current_time - last_synthesis in
       if time_since_last \<ge> 60 \<or> last_synthesis = 0 then (Inr True, s)
       else
        (let recent_transcriptions =
               map frag_text (last_three (transcription_buffers s lecture_id));
             s1 = record_action
                    (Call_detect (last recent_transcriptions)
                       (all_but_last recent_transcriptions)) s in
         (case detect_topic_shift e (last recent_transcriptions)
                 (all_but_last recent_transcriptions) of
            Inl err \<Rightarrow> (Inl err, s1)
          | Inr topic_shift \<Rightarrow> (Inr topic_shift, s1))))
     else (Inr False, s))"

text \<open>Lines 209 to 242: the trigger, the synthesis it asks for, and the cleanup.\<close>
definition evaluate_and_synthesize ::
  "env \<Rightarrow> lecture_id \<Rightarrow> chunk_data \<Rightarrow> state \<Rightarrow> outcome \<times> state" where
  "evaluate_and_synthesize e lecture_id chunk s =
    (case should_synthesize e lecture_id s of
       (Inl err, s1) \<Rightarrow> (Fatal err, s1)
     | (Inr go, s1) \<Rightarrow>
        if go then
         (case synthesize_notes e lecture_id (cd_websocket chunk) s1 of
            (Some err, s2) \<Rightarrow> (Fatal err, s2)
          | (None, s2) \<Rightarrow> (Next, record_action (Unlink (cd_file_path chunk)) s2))
        else (Next, record_action (Unlink (cd_file_path chunk)) s1))"

text \<open>
  What lines 236 to 242 make of the result of \<^verbatim>\<open>synthesize_notes\<close>: an
  exception that escapes it ends the task, a return is followed by the cleanup.
\<close>
definition after_synthesis :: "chunk_data \<Rightarrow> exn option \<times> state \<Rightarrow> outcome \<times> state" where
  "after_synthesis chunk res =
    (case res of
       (Some err, s2) \<Rightarrow> (Fatal err, s2)
     | (None, s2) \<Rightarrow> (Next, record_action (Unlink (cd_file_path chunk)) s2))"

text \<open>
  Lines 152 to 207, then the trigger: the fragment is appended, enriched, scored, saved
  and pushed. \<^verbatim>\<open>chunk_index\<close> is read after the append, so the buffer is not
  empty and the subtraction stays in the naturals.
\<close>
definition store_transcription ::
  "env \<Rightarrow> lecture_id \<Rightarrow> chunk_data \<Rightarrow> transcription_result \<Rightarrow> string \<Rightarrow> state
     \<Rightarrow> outcome \<times> state" where
  "store_transcription e lecture_id chunk transcription_result transcription_text s =
    (let transcription_data =
           \<lparr>frag_text = transcription_text, frag_timestamp = cd_timestamp chunk,
            frag_language = tr_language transcription_result,
            frag_duration = tr_duration transcription_result\<rparr>;
         s1 = s\<lparr>transcription_buffers :=
                 (transcription_buffers s)
                   (lecture_id := transcription_buffers s lecture_id @ [transcription_data])\<rparr>;
         s2 = record_action (Call_query transcription_text lecture_id 5) s1 in
     (case query_documents e transcription_text lecture_id 5 of
        Inl err \<Rightarrow> (Fatal err, s2)
      | Inr rag \<Rightarrow>
         (let s3 = record_action (Call_enrich transcription_text rag lecture_id) s2 in
          (case generate_raw_notes e transcription_text rag lecture_id of
             Inl err \<Rightarrow> (Fatal err, s3)
           | Inr enhanced_notes \<Rightarrow>
              (let chunk_index = length (transcription_buffers s3 lecture_id) - 1;
                   segments = (case tr_segments transcription_result of
                                 None \<Rightarrow> [] | Some sg \<Rightarrow> sg);
                   s4 = record_action (Call_score transcription_text segments) s3 in
               (case score_importance e transcription_text segments of
                  Inl err \<Rightarrow> (Fatal err, s4)
                | Inr importance_result \<Rightarrow>
                   (let importance = (case importance_result of
                                        None \<Rightarrow> 0.5 | Some i \<Rightarrow> i);
                        s5 = record_action
                               (Save (Saved_transcription lecture_id chunk_index
                                        transcription_text enhanced_notes
                                        (cd_timestamp chunk) importance)) s4 in
                    (case push e (cd_websocket chunk)
                            (Ev_transcription transcription_text enhanced_notes
                               (cd_timestamp chunk)
                               (length (transcription_buffers s5 lecture_id))) s5 of
                       (Some err, s6) \<Rightarrow> (Fatal err, s6)
                     | (None, s6) \<Rightarrow> evaluate_and_synthesize e lecture_id chunk s6))))))))"

text \<open>
  Lines 134 to 150: transcription. Any exception of that \<^verbatim>\<open>try\<close>, and an empty
  text after \<^verbatim>\<open>strip()\<close>, \<^verbatim>\<open>continue\<close> with the next work item.
\<close>
definition process_chunk ::
  "env \<Rightarrow> lecture_id \<Rightarrow> chunk_data \<Rightarrow> state \<Rightarrow> outcome \<times> state" where
  "process_chunk e lecture_id chunk s =
    (let s0 = record_action (Call_transcribe (cd_file_path chunk)) s in
     (case transcribe_local e (cd_file_path chunk) of
        Inl trans_error \<Rightarrow> (Next, s0)
      | Inr transcription_result \<Rightarrow>
         (let transcription_text =
                strip (case tr_text transcription_result of None \<Rightarrow> [] | Some t \<Rightarrow> t) in
          if transcription_text = [] then (Next, s0)
          else store_transcription e lecture_id chunk transcription_result
                 transcription_text s0)))"

text \<open>
  One pass of the loop of \<^verbatim>\<open>process_lecture_audio\<close>: \<open>None\<close> when the queue is
  empty (the task stays suspended in \<^verbatim>\<open>get()\<close>), otherwise the head of the queue
  is taken and processed.
\<close>
definition worker_round :: "env \<Rightarrow> lecture_id \<Rightarrow> state \<Rightarrow> (outcome \<times> state) option" where
  "worker_round e lecture_id s =
    (case audio_queues s lecture_id of
       [] \<Rightarrow> None
     | chunk # rest \<Rightarrow>
        Some (process_chunk e lecture_id chunk
                (s\<lparr>audio_queues := (audio_queues s)(lecture_id := rest)\<rparr>)))"

datatype worker_state = Waiting | Stopped exn | Runnable

text \<open>
  \<^verbatim>\<open>process_lecture_audio\<close> run as task \<open>task\<close> for the rounds whose environments
  are given: it ends \<open>Waiting\<close> on an empty queue, \<open>Stopped\<close> after a fatal exception
  (the task is then finished), or \<open>Runnable\<close> when work is left for later rounds.
\<close>
fun process_lecture_audio ::
  "env list \<Rightarrow> nat \<Rightarrow> lecture_id \<Rightarrow> state \<Rightarrow> worker_state \<times> state" where
  "process_lecture_audio [] task lecture_id s =
     (if audio_queues s lecture_id = [] then (Waiting, s) else (Runnable, s))"
| "process_lecture_audio (e # es) task lecture_id s =
     (case worker_round e lecture_id s of
        None \<Rightarrow> (Waiting, s)
      | Some (Next, s') \<Rightarrow> process_lecture_audio es task lecture_id s'
      | Some (Fatal err, s') \<Rightarrow>
          (Stopped err, s'\<lparr>tasks := (tasks s')[task := (lecture_id, Faulted)]\<rparr>))"

section \<open>Intake and the session transport\<close>

datatype intake_reply = Queued nat nat | Intake_error string

text \<open>\<^verbatim>\<open>process_audio_chunk\<close>: the file is written and the work item queued.\<close>
definition process_audio_chunk ::
  "env \<Rightarrow> lecture_id \<Rightarrow> nat \<Rightarrow> websocket \<Rightarrow> state \<Rightarrow> intake_reply \<times> state" where
  "process_audio_chunk e lecture_id file_size ws s =
    (let timestamp = py_int (time_intake e * 1000);
         file_path = (lecture_id, timestamp);
         s1 = record_action (Write_file file_path) s in
     (case write_file e file_path of
        Some err \<Rightarrow> (Intake_error err, s1)
      | None \<Rightarrow>
         (let s2 = s1\<lparr>audio_queues :=
                      (audio_queues s1)
                        (lecture_id := audio_queues s1 lecture_id
                           @ [\<lparr>cd_file_path = file_path, cd_timestamp = timestamp,
                               cd_websocket = ws\<rparr>])\<rparr> in
          (Queued file_size (length (audio_queues s2 lecture_id)), s2))))"

text \<open>\<^verbatim>\<open>receive_audio_chunk\<close>: refused without a registered transport.\<close>
definition receive_audio_chunk ::
  "env \<Rightarrow> lecture_id \<Rightarrow> nat \<Rightarrow> state \<Rightarrow> intake_reply \<times> state" where
  "receive_audio_chunk e lecture_id file_size s =
    (case active_connections s lecture_id of
       None \<Rightarrow> (Intake_error ''No active WebSocket connection for this lecture'', s)
     | Some ws \<Rightarrow> process_audio_chunk e lecture_id file_size ws s)"

text \<open>
  \<^verbatim>\<open>old_task.cancel()\<close> followed by \<^verbatim>\<open>await old_task\<close>. The worker lets
  \<^verbatim>\<open>CancelledError\<close> through (it is not an \<^verbatim>\<open>Exception\<close>, and the handler of
  line 244 raises it again), so when the \<^verbatim>\<open>await\<close> returns a running task has
  ended as cancelled; a task that had already ended keeps its state.
\<close>
definition cancel_and_await :: "nat \<Rightarrow> state \<Rightarrow> state" where
  "cancel_and_await old_task s =
    (if old_task < length (tasks s) \<and> snd (tasks s ! old_task) = Running
     then s\<lparr>tasks := (tasks s)[old_task := (fst (tasks s ! old_task), Cancelled)]\<rparr>
     else s)"

text \<open>\<^verbatim>\<open>asyncio.create_task(processor.process_lecture_audio(lecture_id))\<close>.\<close>
definition create_task :: "lecture_id \<Rightarrow> state \<Rightarrow> nat \<times> state" where
  "create_task lecture_id s = (length (tasks s), s\<lparr>tasks := tasks s @ [(lecture_id, Running)]\<rparr>)"

text \<open>
  Lines 542 to 568 of \<^verbatim>\<open>websocket_endpoint\<close>: the transport is registered, an
  old task is cancelled and awaited and the queue replaced, a new task is created and
  registered, and the confirmation is pushed. \<^verbatim>\<open>websocket.accept()\<close> is taken to
  return.
\<close>
definition websocket_connect ::
  "env \<Rightarrow> lecture_id \<Rightarrow> websocket \<Rightarrow> state \<Rightarrow> exn option \<times> state" where
  "websocket_connect e lecture_id ws s =
    (let s1 = s\<lparr>active_connections := (active_connections s)(lecture_id \<mapsto> ws)\<rparr>;
         s2 = (case processing_tasks s1 lecture_id of
                 None \<Rightarrow> s1
               | Some old_task \<Rightarrow>
                  (let s' = cancel_and_await old_task s1 in
                   s'\<lparr>audio_queues := (audio_queues s')(lecture_id := [])\<rparr>));
         (task, s3) = create_task lecture_id s2;
         s4 = s3\<lparr>processing_tasks := (processing_tasks s3)(lecture_id \<mapsto> task)\<rparr>
     in push e ws Ev_connection_confirmed s4)"


text \<open>\<^verbatim>\<open>manager.disconnect\<close>: the task is left running.\<close>
definition disconnect :: "lecture_id \<Rightarrow> state \<Rightarrow> state" where
  "disconnect lecture_id s = s\<lparr>active_connections := (active_connections s)(lecture_id := None)\<rparr>"

section \<open>Scenario fixtures\<close>

text \<open>
  A round in which every collaborator answers: the transcription of any file is \<open>txt\<close>,
  retrieval finds nothing, no topic shift is detected, both synthesizers succeed, every
  push is accepted, and every clock reading of the round is \<open>t\<close>.
\<close>
definition scenario_env :: "string \<Rightarrow> real \<Rightarrow> env" where
  "scenario_env txt t =
    \<lparr>transcribe_local = (\<lambda>_. Inr \<lparr>tr_text = Some txt, tr_language = None,
                                  tr_duration = None, tr_segments = None\<rparr>),
     query_documents = (\<lambda>_ _ _. Inr []),
     generate_raw_notes = (\<lambda>_ _ _. Inr ''notes''),
     score_importance = (\<lambda>_ _. Inr None),
     detect_topic_shift = (\<lambda>_ _. Inr False),
     synthesize_structured_notes =
       (\<lambda>_ _ _ _. Inr \<lparr>sr_success = Some True, sr_structured_notes = Some ''S'',
                       sr_error = None\<rparr>),
     synthesize_final_notes =
       (\<lambda>_ _ _. Inr \<lparr>fr_success = Some True, fr_title = Some ''T'', fr_markdown = Some ''M'',
                     fr_sections = Some [], fr_glossary = Some [],
                     fr_key_takeaways = Some []\<rparr>),
     send_json = (\<lambda>_ _. None),
     write_file = (\<lambda>_. None),
     time_intake = t, time_trigger = t, time_notes_event = t, time_synthesis_done = t,
     time_final_event = t\<rparr>"

text \<open>
  A segment whose transcription is \<open>txt\<close> arrives for lecture \<open>lec\<close> at time \<open>t\<close>
  and the worker takes it from the queue in the same round.
\<close>
definition arrive :: "string \<Rightarrow> real \<Rightarrow> state \<Rightarrow> state" where
  "arrive txt t s =
    (let e = scenario_env txt t;
         s1 = snd (receive_audio_chunk e ''lec'' 0 s) in
     (case worker_round e ''lec'' s1 of None \<Rightarrow> s1 | Some (out, s2) \<Rightarrow> s2))"

text \<open>The session after the transport of lecture \<open>lec\<close> has connected.\<close>
definition scenario_start :: state where
  "scenario_start = snd (websocket_connect (scenario_env [] 0) ''lec'' 1 init_state)"

definition fragment_of :: "string \<Rightarrow> int \<Rightarrow> fragment" where
  "fragment_of txt ts =
    \<lparr>frag_text = txt, frag_timestamp = ts, frag_language = None, frag_duration = None\<rparr>"

text \<open>A session whose buffer holds three fragments and that has never synthesized.\<close>
definition state_abc :: state where
  "state_abc = init_state\<lparr>transcription_buffers :=
     (\<lambda>_. [])(''lec'' := [fragment_of ''A'' 0, fragment_of ''B'' 20000,
                            fragment_of ''C'' 40000])\<rparr>"

text \<open>
  A session with two fragments in the buffer, the work item of a third segment, and a
  round in which the enrichment of that segment raises.
\<close>
definition state_ab :: state where
  "state_ab = init_state\<lparr>transcription_buffers :=
     (\<lambda>_. [])(''lec'' := [fragment_of ''A'' 0, fragment_of ''B'' 20000])\<rparr>"

definition chunk_c :: chunk_data where
  "chunk_c = \<lparr>cd_file_path = (''lec'', 40000), cd_timestamp = 40000, cd_websocket = 1\<rparr>"

definition enrich_raise_env :: env where
  "enrich_raise_env = (scenario_env ''C'' 40)\<lparr>generate_raw_notes :=
     (\<lambda>_ _ _. Inl ''enrichment unavailable'')\<rparr>"

text \<open>A round in which the synthesis collaborator returns a result that says failure.\<close>
definition soft_failure_env :: env where
  "soft_failure_env = (scenario_env [] 100)\<lparr>synthesize_structured_notes :=
     (\<lambda>_ _ _ _. Inr \<lparr>sr_success = Some False, sr_structured_notes = None,
                     sr_error = Some ''rate limit exceeded''\<rparr>)\<rparr>"

text \<open>The same session after one structured note has been produced.\<close>
definition state_noted :: state where
  "state_noted = state_abc\<lparr>structured_notes_history := (\<lambda>_. [])(''lec'' := [''S''])\<rparr>"

text \<open>A round in which the final synthesizer returns a result that says failure.\<close>
definition final_failure_env :: env where
  "final_failure_env = (scenario_env [] 100)\<lparr>synthesize_final_notes :=
     (\<lambda>_ _ _. Inr \<lparr>fr_success = Some False, fr_title = None, fr_markdown = None,
                   fr_sections = None, fr_glossary = None, fr_key_takeaways = None\<rparr>)\<rparr>"


section \<open>Observing a synthesis round\<close>

text \<open>
  \<^verbatim>\<open>synthesize_notes\<close> on a buffer that is not empty always pushes
  \<^verbatim>\<open>synthesis_started\<close> or \<^verbatim>\<open>synthesis_error\<close>, and nothing else in the
  program pushes either: a round of synthesis was run between two states when one of
  these pushes is among the actions added to the trace.
\<close>
fun is_synthesis_push :: "action \<Rightarrow> bool" where
  "is_synthesis_push (Send ws Ev_synthesis_started) = True"
| "is_synthesis_push (Send ws (Ev_synthesis_error err)) = True"
| "is_synthesis_push a = False"

definition new_actions :: "state \<Rightarrow> state \<Rightarrow> action list" where
  "new_actions s s' = drop (length (trace s)) (trace s')"

definition synthesis_attempted :: "state \<Rightarrow> state \<Rightarrow> bool" where
  "synthesis_attempted s s' = list_ex is_synthesis_push (new_actions s s')"

text \<open>
  The decision rule in the words of the specification: at least three fragments, and the
  time condition (sixty seconds since the last synthesis, or no synthesis yet) or a topic
  shift reported for the newest fragment against the two before it.
\<close>
definition trigger_rule :: "env \<Rightarrow> lecture_id \<Rightarrow> state \<Rightarrow> bool" where
  "trigger_rule e lecture_id s =
    (let buf = transcription_buffers s lecture_id; n = length buf in
     3 \<le> n \<and>
     (60 \<le> time_trigger e - last_synthesis_time s lecture_id
      \<or> last_synthesis_time s lecture_id = 0
      \<or> detect_topic_shift e (frag_text (buf ! (n - 1)))
           [frag_text (buf ! (n - 3)), frag_text (buf ! (n - 2))] = Inr True))"

section \<open>Observing workers and saved fragments\<close>



section \<open>Properties of the slices\<close>

lemma last_three_nonempty: "xs \<noteq> [] \<Longrightarrow> last_three xs \<noteq> []"
  by (cases xs) (simp_all add: last_three_def)

lemma last_one_last: "xs \<noteq> [] \<Longrightarrow> last_one xs = [last xs]"
  unfolding last_one_def
  by (induction xs rule: rev_induct) simp_all

lemma last_three_ge3:
  "3 \<le> length xs \<Longrightarrow>
   last_three xs = [xs ! (length xs - 3), xs ! (length xs - 2), xs ! (length xs - 1)]"
  by (auto simp add: last_three_def list_eq_iff_nth_eq nth_Cons' less_Suc_eq numeral_3_eq_3
        numeral_2_eq_2)

lemma strip_empty_iff: "strip xs = [] \<longleftrightarrow> (\<forall>c\<in>set xs. is_space c)"
proof
  assume "\<forall>c\<in>set xs. is_space c"
  then show "strip xs = []"
    by (auto simp add: strip_def dest: set_dropWhileD)
next
  assume a: "strip xs = []"
  then have "dropWhile is_space (rev (dropWhile is_space xs)) = []"
    by (simp add: strip_def)
  then have all: "\<forall>c\<in>set (dropWhile is_space xs). is_space c"
    using dropWhile_eq_Nil_conv[of is_space "rev (dropWhile is_space xs)"] by simp
  show "\<forall>c\<in>set xs. is_space c"
  proof (cases "dropWhile is_space xs")
    case Nil
    then show ?thesis using dropWhile_eq_Nil_conv[of is_space xs] by blast
  next
    case (Cons y ys)
    then have "\<not> is_space y" using hd_dropWhile[of is_space xs] by simp
    moreover have "is_space y" using all Cons by simp
    ultimately show ?thesis by simp
  qed
qed

section \<open>Mid-stream synthesis: the successful round\<close>

text \<open>The state a successful round ends in.\<close>
lemma synthesize_notes_success_state:
  assumes buf: "transcription_buffers s lecture_id \<noteq> []"
    and q: "query_documents e
              (join_space (map frag_text (last_three (transcription_buffers s lecture_id))))
              lecture_id 5 = Inr rag"
    and st: "send_json e ws Ev_synthesis_started = None"
    and syn: "synthesize_structured_notes e (last_three (transcription_buffers s lecture_id)) rag
                lecture_id
                (if structured_notes_history s lecture_id \<noteq> []
                 then Some (last (structured_notes_history s lecture_id)) else None) = Inr r"
    and ok: "sr_success r = Some True"
    and sn: "sr_structured_notes r = Some structured_notes"
    and sent: "send_json e ws
                 (Ev_structured_notes structured_notes (py_int (time_notes_event e * 1000))
                    (length (last_three (transcription_buffers s lecture_id)))) = None"
  shows "synthesize_notes e lecture_id ws s =
    (None,
     s\<lparr>structured_notes_history :=
         (structured_notes_history s)
           (lecture_id := structured_notes_history s lecture_id @ [structured_notes]),
       trace := trace s @
         [Call_query (join_space (map frag_text (last_three (transcription_buffers s lecture_id))))
            lecture_id 5,
          Send ws Ev_synthesis_started,
          Call_synthesize (last_three (transcription_buffers s lecture_id)) rag lecture_id
            (if structured_notes_history s lecture_id \<noteq> []
             then Some (last (structured_notes_history s lecture_id)) else None),
          Save (Saved_structured_notes lecture_id structured_notes
                  (length (last_three (transcription_buffers s lecture_id)))),
          Send ws (Ev_structured_notes structured_notes (py_int (time_notes_event e * 1000))
                     (length (last_three (transcription_buffers s lecture_id))))],
       last_synthesis_time := (last_synthesis_time s)(lecture_id := time_synthesis_done e),
       transcription_buffers :=
         (transcription_buffers s)(lecture_id := [last (transcription_buffers s lecture_id)])\<rparr>)"
proof (cases "structured_notes_history s lecture_id = []")
  case True
  then show ?thesis
    using assms last_three_nonempty[OF buf] last_one_last[OF buf]
    by (simp add: synthesize_notes_def synthesize_notes_body_def push_def record_action_def
          Let_def)
next
  case False
  then show ?thesis
    using assms last_three_nonempty[OF buf] last_one_last[OF buf]
    by (simp add: synthesize_notes_def synthesize_notes_body_def push_def record_action_def
          Let_def)
qed

text \<open>
  Claim C2. On a successful mid-stream synthesis round (the buffer is not empty, the
  retrieval and the synthesis collaborator return, the result says success and carries
  the notes, and the two pushes are accepted), the new structured note is appended to
  the history, \<^verbatim>\<open>save_structured_notes\<close> is called with it, a
  \<^verbatim>\<open>structured_notes\<close> event is pushed, the last-synthesis time becomes the
  current time, and the buffer is cut down to its single newest fragment. The trace gives
  the calls in program order.
\<close>
theorem synthesize_notes_success:
  assumes buf: "transcription_buffers s lecture_id \<noteq> []"
    and tr: "transcriptions = last_three (transcription_buffers s lecture_id)"
    and prev: "previous_notes = (if structured_notes_history s lecture_id \<noteq> []
                 then Some (last (structured_notes_history s lecture_id)) else None)"
    and q: "query_documents e (join_space (map frag_text transcriptions)) lecture_id 5 = Inr rag"
    and st: "send_json e ws Ev_synthesis_started = None"
    and syn: "synthesize_structured_notes e transcriptions rag lecture_id previous_notes = Inr r"
    and ok: "sr_success r = Some True"
    and sn: "sr_structured_notes r = Some structured_notes"
    and ev: "ev = Ev_structured_notes structured_notes (py_int (time_notes_event e * 1000))
                    (length transcriptions)"
    and sent: "send_json e ws ev = None"
    and res: "s' = snd (synthesize_notes e lecture_id ws s)"
  shows "fst (synthesize_notes e lecture_id ws s) = None
       \<and> structured_notes_history s' lecture_id
           = structured_notes_history s lecture_id @ [structured_notes]
       \<and> trace s' = trace s @
           [Call_query (join_space (map frag_text transcriptions)) lecture_id 5,
            Send ws Ev_synthesis_started,
            Call_synthesize transcriptions rag lecture_id previous_notes,
            Save (Saved_structured_notes lecture_id structured_notes (length transcriptions)),
            Send ws ev]
       \<and> last_synthesis_time s' lecture_id = time_synthesis_done e
       \<and> transcription_buffers s' lecture_id = [last (transcription_buffers s lecture_id)]"
proof (cases "structured_notes_history s lecture_id = []")
  case True
  then show ?thesis
    using assms last_three_nonempty[OF buf] last_one_last[OF buf]
    by (simp add: synthesize_notes_def synthesize_notes_body_def push_def record_action_def
          Let_def)
next
  case False
  then show ?thesis
    using assms last_three_nonempty[OF buf] last_one_last[OF buf]
    by (simp add: synthesize_notes_def synthesize_notes_body_def push_def record_action_def
          Let_def)
qed

theorem synthesize_notes_success_witness:
  "transcription_buffers state_abc ''lec'' \<noteq> []
   \<and> sr_success \<lparr>sr_success = Some True, sr_structured_notes = Some ''S'', sr_error = None\<rparr>
       = Some True
   \<and> fst (synthesize_notes (scenario_env [] 100) ''lec'' 1 state_abc) = None
   \<and> structured_notes_history (snd (synthesize_notes (scenario_env [] 100) ''lec'' 1 state_abc))
       ''lec'' = [''S'']
   \<and> trace (snd (synthesize_notes (scenario_env [] 100) ''lec'' 1 state_abc))
       = [Call_query ''A B C'' ''lec'' 5, Send 1 Ev_synthesis_started,
          Call_synthesize [fragment_of ''A'' 0, fragment_of ''B'' 20000, fragment_of ''C'' 40000]
            [] ''lec'' None,
          Save (Saved_structured_notes ''lec'' ''S'' 3),
          Send 1 (Ev_structured_notes ''S'' 100000 3)]
   \<and> last_synthesis_time (snd (synthesize_notes (scenario_env [] 100) ''lec'' 1 state_abc))
       ''lec'' = 100
   \<and> transcription_buffers (snd (synthesize_notes (scenario_env [] 100) ''lec'' 1 state_abc))
       ''lec'' = [fragment_of ''C'' 40000]"
  using synthesize_notes_success
          [of state_abc "''lec''" _ _ "scenario_env [] 100" "[]" 1 _ "''S''",
           OF _ refl refl _ _ _ _ _ refl _ refl]
  by (simp add: state_abc_def init_state_def scenario_env_def fragment_of_def last_three_def
        py_int_def)

section \<open>Final synthesis on an empty history\<close>

text \<open>
  Claim C10. When \<^verbatim>\<open>final_synthesis\<close> is called while the history of structured
  notes of the lecture is empty, it returns at once: the whole state, the trace of pushes,
  saves and collaborator calls included, is the one it was called with, so no event is
  pushed and nothing is saved.
\<close>
theorem final_synthesis_empty_history:
  "structured_notes_history s lecture_id = [] \<Longrightarrow>
   final_synthesis e lecture_id ws s = (None, s)"
  by (simp add: final_synthesis_def final_synthesis_body_def)

theorem final_synthesis_empty_history_witness:
  "structured_notes_history state_abc ''lec'' = []
   \<and> final_synthesis (scenario_env [] 0) ''lec'' 1 state_abc = (None, state_abc)"
  using final_synthesis_empty_history [of state_abc "''lec''" "scenario_env [] 0" 1]
  by (simp add: state_abc_def init_state_def)

section \<open>Mid-stream synthesis: the failed round\<close>

text \<open>
  When the synthesis collaborator raises, the handler of \<^verbatim>\<open>synthesize_notes\<close>
  pushes \<^verbatim>\<open>synthesis_error\<close> with the text of the exception.
\<close>
lemma synthesize_notes_exception_reported:
  assumes "transcription_buffers s lecture_id \<noteq> []"
    and "transcriptions = last_three (transcription_buffers s lecture_id)"
    and "previous_notes = (if structured_notes_history s lecture_id \<noteq> []
                 then Some (last (structured_notes_history s lecture_id)) else None)"
    and "query_documents e (join_space (map frag_text transcriptions)) lecture_id 5 = Inr rag"
    and "send_json e ws Ev_synthesis_started = None"
    and "synthesize_structured_notes e transcriptions rag lecture_id previous_notes = Inl err"
  shows "synthesize_notes e lecture_id ws s
     = (send_json e ws (Ev_synthesis_error err),
        s\<lparr>trace := trace s @
          [Call_query (join_space (map frag_text transcriptions)) lecture_id 5,
           Send ws Ev_synthesis_started,
           Call_synthesize transcriptions rag lecture_id previous_notes,
           Send ws (Ev_synthesis_error err)]\<rparr>)"
proof (cases "structured_notes_history s lecture_id = []")
  case True
  then show ?thesis
    using assms last_three_nonempty[of "transcription_buffers s lecture_id"]
    by (simp add: synthesize_notes_def synthesize_notes_body_def push_def record_action_def
          Let_def)
next
  case False
  then show ?thesis
    using assms last_three_nonempty[of "transcription_buffers s lecture_id"]
    by (simp add: synthesize_notes_def synthesize_notes_body_def push_def record_action_def
          Let_def)
qed

text \<open>
  When the collaborator returns a result whose \<^verbatim>\<open>success\<close> is false, the round
  ends after the call: nothing more is pushed, and only the trace has changed.
\<close>
lemma synthesize_notes_soft_failure:
  assumes "transcription_buffers s lecture_id \<noteq> []"
    and "transcriptions = last_three (transcription_buffers s lecture_id)"
    and "previous_notes = (if structured_notes_history s lecture_id \<noteq> []
                 then Some (last (structured_notes_history s lecture_id)) else None)"
    and "query_documents e (join_space (map frag_text transcriptions)) lecture_id 5 = Inr rag"
    and "send_json e ws Ev_synthesis_started = None"
    and "synthesize_structured_notes e transcriptions rag lecture_id previous_notes = Inr r"
    and "sr_success r = Some False"
  shows "synthesize_notes e lecture_id ws s
     = (None,
        s\<lparr>trace := trace s @
          [Call_query (join_space (map frag_text transcriptions)) lecture_id 5,
           Send ws Ev_synthesis_started,
           Call_synthesize transcriptions rag lecture_id previous_notes]\<rparr>)"
proof (cases "structured_notes_history s lecture_id = []")
  case True
  then show ?thesis
    using assms last_three_nonempty[of "transcription_buffers s lecture_id"]
    by (simp add: synthesize_notes_def synthesize_notes_body_def push_def record_action_def
          Let_def)
next
  case False
  then show ?thesis
    using assms last_three_nonempty[of "transcription_buffers s lecture_id"]
    by (simp add: synthesize_notes_def synthesize_notes_body_def push_def record_action_def
          Let_def)
qed

text \<open>
  Claim C3. On every failed mid-stream synthesis round a \<^verbatim>\<open>synthesis_error\<close> event
  with the failure detail is pushed, and the buffer and the last-synthesis time are left
  unchanged. The code run on a buffer of three fragments with a collaborator that returns
  \<^verbatim>\<open>{"success": False, "error": ...}\<close>: the buffer and the time are unchanged, but
  the only push is \<^verbatim>\<open>synthesis_started\<close>; no \<^verbatim>\<open>synthesis_error\<close> follows
  and the detail is dropped.
\<close>
theorem synthesize_notes_soft_failure_silent:
  "synthesize_notes soft_failure_env ''lec'' 1 state_abc
     = (None, state_abc\<lparr>trace :=
          [Call_query ''A B C'' ''lec'' 5, Send 1 Ev_synthesis_started,
           Call_synthesize [fragment_of ''A'' 0, fragment_of ''B'' 20000, fragment_of ''C'' 40000]
             [] ''lec'' None]\<rparr>)"
  by (simp add: synthesize_notes_def synthesize_notes_body_def soft_failure_env_def
        scenario_env_def state_abc_def init_state_def last_three_def push_def record_action_def
        fragment_of_def Let_def)

section \<open>The trigger\<close>

lemma synthesize_notes_attempted:
  "transcription_buffers s lecture_id \<noteq> [] \<Longrightarrow>
   \<exists>acts. trace (snd (synthesize_notes e lecture_id ws s)) = trace s @ acts
        \<and> list_ex is_synthesis_push acts"
  using last_three_nonempty[of "transcription_buffers s lecture_id"]
  by (auto simp add: synthesize_notes_def
        synthesize_notes_body_def push_def record_action_def Let_def
      split: sum.splits option.splits prod.splits)

lemma should_synthesize_value:
  "fst (should_synthesize e lecture_id s) = Inr True \<longleftrightarrow>
     3 \<le> length (transcription_buffers s lecture_id) \<and>
     (60 \<le> time_trigger e - last_synthesis_time s lecture_id
      \<or> last_synthesis_time s lecture_id = 0
      \<or> detect_topic_shift e
           (frag_text (transcription_buffers s lecture_id
                         ! (length (transcription_buffers s lecture_id) - 1)))
           [frag_text (transcription_buffers s lecture_id
                         ! (length (transcription_buffers s lecture_id) - 3)),
            frag_text (transcription_buffers s lecture_id
                         ! (length (transcription_buffers s lecture_id) - 2))] = Inr True)"
  by (auto simp add: should_synthesize_def Let_def last_three_ge3 all_but_last_def
      split: sum.splits)

lemma should_synthesize_trace:
  "\<not> list_ex is_synthesis_push (new_actions s (snd (should_synthesize e lecture_id s)))"
  by (auto simp add: should_synthesize_def Let_def new_actions_def record_action_def
      split: sum.splits)

lemma should_synthesize_buffer:
  "transcription_buffers (snd (should_synthesize e lecture_id s)) = transcription_buffers s"
  by (auto simp add: should_synthesize_def Let_def record_action_def split: sum.splits)

lemma should_synthesize_rule:
  "(fst (should_synthesize e lecture_id s) = Inr True) = trigger_rule e lecture_id s"
  by (simp add: should_synthesize_value trigger_rule_def Let_def)

lemma should_synthesize_quiet:
  "\<exists>acts. trace (snd (should_synthesize e lecture_id s)) = trace s @ acts
      \<and> \<not> list_ex is_synthesis_push acts"
  by (auto simp add: should_synthesize_def Let_def record_action_def split: sum.splits)

lemma evaluate_fires:
  assumes "trigger_rule e lecture_id s"
  shows "synthesis_attempted s (snd (evaluate_and_synthesize e lecture_id chunk s))"
proof -
  obtain r s1 where r: "should_synthesize e lecture_id s = (r, s1)" by (cases "should_synthesize e lecture_id s")
  then have rt: "r = Inr True" using assms should_synthesize_rule[of e lecture_id s] by simp
  obtain a1 where a1: "trace s1 = trace s @ a1"
    using should_synthesize_quiet[of e lecture_id s] r by auto
  have buf: "transcription_buffers s1 lecture_id \<noteq> []"
    using should_synthesize_buffer[of e lecture_id s] r assms
    by (auto simp add: trigger_rule_def Let_def)
  obtain x s2 where x: "synthesize_notes e lecture_id (cd_websocket chunk) s1 = (x, s2)"
    by (cases "synthesize_notes e lecture_id (cd_websocket chunk) s1")
  obtain a2 where a2: "trace s2 = trace s1 @ a2" "list_ex is_synthesis_push a2"
    using synthesize_notes_attempted[OF buf, of e "cd_websocket chunk"] x by auto
  show ?thesis
    using r rt x a1 a2
    by (cases x) (auto simp add: evaluate_and_synthesize_def synthesis_attempted_def
        new_actions_def record_action_def)
qed

lemma evaluate_quiet:
  assumes "\<not> trigger_rule e lecture_id s"
  shows "\<not> synthesis_attempted s (snd (evaluate_and_synthesize e lecture_id chunk s))"
proof -
  obtain r s1 where r: "should_synthesize e lecture_id s = (r, s1)" by (cases "should_synthesize e lecture_id s")
  then have rt: "r \<noteq> Inr True" using assms should_synthesize_rule[of e lecture_id s] by auto
  obtain a1 where a1: "trace s1 = trace s @ a1" "\<not> list_ex is_synthesis_push a1"
    using should_synthesize_quiet[of e lecture_id s] r by auto
  show ?thesis
    using r rt a1
    by (cases r) (auto simp add: evaluate_and_synthesize_def synthesis_attempted_def
        new_actions_def record_action_def)
qed

text \<open>
  Between two states, a synthesis round shows as one of its pushes exactly under the rule.
\<close>
lemma synthesis_attempted_iff_rule:
  "synthesis_attempted s (snd (evaluate_and_synthesize e lecture_id chunk s))
     = trigger_rule e lecture_id s"
  using evaluate_fires[of e lecture_id s chunk] evaluate_quiet[of e lecture_id s chunk]
  by blast

text \<open>The five ways lines 209 to 242 can go, by the buffer, the clock and the detector.\<close>
lemma evaluate_and_synthesize_cases:
  assumes due: "due = (60 \<le> time_trigger e - last_synthesis_time s lecture_id
                       \<or> last_synthesis_time s lecture_id = 0)"
    and buf: "buf = transcription_buffers s lecture_id"
    and newest: "newest = frag_text (buf ! (length buf - 1))"
    and prior: "prior = [frag_text (buf ! (length buf - 3)), frag_text (buf ! (length buf - 2))]"
    and s7: "s7 = record_action (Call_detect newest prior) s"
  shows "(3 \<le> length buf \<and> due \<longrightarrow>
            evaluate_and_synthesize e lecture_id chunk s
              = after_synthesis chunk (synthesize_notes e lecture_id (cd_websocket chunk) s))
       \<and> (3 \<le> length buf \<and> \<not> due \<and> detect_topic_shift e newest prior = Inr True \<longrightarrow>
            evaluate_and_synthesize e lecture_id chunk s
              = after_synthesis chunk (synthesize_notes e lecture_id (cd_websocket chunk) s7))
       \<and> (3 \<le> length buf \<and> \<not> due \<and> detect_topic_shift e newest prior = Inr False \<longrightarrow>
            evaluate_and_synthesize e lecture_id chunk s
              = (Next, record_action (Unlink (cd_file_path chunk)) s7))
       \<and> (3 \<le> length buf \<and> \<not> due \<and> detect_topic_shift e newest prior = Inl err \<longrightarrow>
            evaluate_and_synthesize e lecture_id chunk s = (Fatal err, s7))
       \<and> (length buf < 3 \<longrightarrow>
            evaluate_and_synthesize e lecture_id chunk s
              = (Next, record_action (Unlink (cd_file_path chunk)) s))"
proof (cases "3 \<le> length buf")
  case False
  then show ?thesis
    using buf by (simp add: evaluate_and_synthesize_def should_synthesize_def Let_def)
next
  case True
  then have l3: "last_three (transcription_buffers s lecture_id)
                   = [buf ! (length buf - 3), buf ! (length buf - 2), buf ! (length buf - 1)]"
    using buf last_three_ge3[of "transcription_buffers s lecture_id"] by simp
  show ?thesis
    using True buf due newest prior s7 l3
    by (auto simp add: evaluate_and_synthesize_def should_synthesize_def after_synthesis_def
          all_but_last_def Let_def split: prod.splits option.splits)
qed

text \<open>
  A round whose transcription is not empty and whose retrieval, enrichment, scoring and
  \<^verbatim>\<open>transcription\<close> push return reaches the trigger in the state \<open>s6\<close>: the
  fragment appended, the calls recorded.
\<close>
lemma process_chunk_reaches_trigger:
  assumes tr: "transcribe_local e (cd_file_path chunk) = Inr r"
    and tx: "transcription_text = strip (case tr_text r of None \<Rightarrow> [] | Some t \<Rightarrow> t)"
    and ne: "transcription_text \<noteq> []"
    and q: "query_documents e transcription_text lecture_id 5 = Inr rag"
    and en: "generate_raw_notes e transcription_text rag lecture_id = Inr enhanced_notes"
    and segs: "segments = (case tr_segments r of None \<Rightarrow> [] | Some sg \<Rightarrow> sg)"
    and sc: "score_importance e transcription_text segments = Inr importance_result"
    and imp: "importance = (case importance_result of None \<Rightarrow> 0.5 | Some i \<Rightarrow> i)"
    and buf: "buf = transcription_buffers s lecture_id @
                [\<lparr>frag_text = transcription_text, frag_timestamp = cd_timestamp chunk,
                  frag_language = tr_language r, frag_duration = tr_duration r\<rparr>]"
    and sent: "send_json e (cd_websocket chunk)
                 (Ev_transcription transcription_text enhanced_notes (cd_timestamp chunk)
                    (length buf)) = None"
    and s6: "s6 = s\<lparr>transcription_buffers := (transcription_buffers s)(lecture_id := buf),
                    trace := trace s @
                      [Call_transcribe (cd_file_path chunk),
                       Call_query transcription_text lecture_id 5,
                       Call_enrich transcription_text rag lecture_id,
                       Call_score transcription_text segments,
                       Save (Saved_transcription lecture_id (length buf - 1) transcription_text
                               enhanced_notes (cd_timestamp chunk) importance),
                       Send (cd_websocket chunk)
                         (Ev_transcription transcription_text enhanced_notes
                            (cd_timestamp chunk) (length buf))]\<rparr>"
  shows "process_chunk e lecture_id chunk s = evaluate_and_synthesize e lecture_id chunk s6"
  using assms
  by (simp add: process_chunk_def store_transcription_def push_def record_action_def Let_def)

text \<open>
  Claim C1, as stated, at a concrete input: for every fragment append the trigger fires
  when the buffer holds three fragments and no synthesis has happened yet. Here the buffer
  holds A and B, the last-synthesis time is \<open>0\<close>, and the segment C is transcribed and
  appended (line 160); the enrichment of line 167 raises, the handler of line 247 ends the
  worker, and the round is over with three fragments in the buffer, the rule true, and no
  synthesis run.
\<close>
theorem append_without_trigger:
  "process_chunk enrich_raise_env ''lec'' chunk_c state_ab
     = (Fatal ''enrichment unavailable'',
        state_ab\<lparr>transcription_buffers :=
            (\<lambda>_. [])(''lec'' := [fragment_of ''A'' 0, fragment_of ''B'' 20000,
                                   fragment_of ''C'' 40000]),
          trace := [Call_transcribe (''lec'', 40000), Call_query ''C'' ''lec'' 5,
                    Call_enrich ''C'' [] ''lec'']\<rparr>)
   \<and> trigger_rule enrich_raise_env ''lec''
        (snd (process_chunk enrich_raise_env ''lec'' chunk_c state_ab))"
  by (simp add: process_chunk_def store_transcription_def enrich_raise_env_def scenario_env_def
        chunk_c_def state_ab_def init_state_def fragment_of_def record_action_def strip_def
        is_space_def trigger_rule_def Let_def)

text \<open>
  Claim C1, amended. For every fragment append after which retrieval, enrichment,
  importance scoring and the \<^verbatim>\<open>transcription\<close> push return, the mid-stream
  synthesis is run exactly when the buffer, the new fragment included, holds at least
  three fragments and either sixty seconds have passed since the last synthesis, or no
  synthesis has happened yet (the time is \<open>0\<close>), or, the time condition failing, the
  topic-shift detector returns true on the newest fragment against the two before it.
  In these two cases the round is \<^verbatim>\<open>synthesize_notes\<close> run on the state reached
  (after the detector call in the second), followed by the cleanup. In the other cases
  (the detector returns false, or raises and ends the worker, or the buffer holds fewer
  than three fragments, whatever the clock and the detector) the round ends in the state
  reached, and no synthesis is run.
\<close>
theorem trigger_after_append:
  assumes tr: "transcribe_local e (cd_file_path chunk) = Inr r"
    and tx: "transcription_text = strip (case tr_text r of None \<Rightarrow> [] | Some t \<Rightarrow> t)"
    and ne: "transcription_text \<noteq> []"
    and q: "query_documents e transcription_text lecture_id 5 = Inr rag"
    and en: "generate_raw_notes e transcription_text rag lecture_id = Inr enhanced_notes"
    and segs: "segments = (case tr_segments r of None \<Rightarrow> [] | Some sg \<Rightarrow> sg)"
    and sc: "score_importance e transcription_text segments = Inr importance_result"
    and imp: "importance = (case importance_result of None \<Rightarrow> 0.5 | Some i \<Rightarrow> i)"
    and buf: "buf = transcription_buffers s lecture_id @
                [\<lparr>frag_text = transcription_text, frag_timestamp = cd_timestamp chunk,
                  frag_language = tr_language r, frag_duration = tr_duration r\<rparr>]"
    and sent: "send_json e (cd_websocket chunk)
                 (Ev_transcription transcription_text enhanced_notes (cd_timestamp chunk)
                    (length buf)) = None"
    and s6: "s6 = s\<lparr>transcription_buffers := (transcription_buffers s)(lecture_id := buf),
                    trace := trace s @
                      [Call_transcribe (cd_file_path chunk),
                       Call_query transcription_text lecture_id 5,
                       Call_enrich transcription_text rag lecture_id,
                       Call_score transcription_text segments,
                       Save (Saved_transcription lecture_id (length buf - 1) transcription_text
                               enhanced_notes (cd_timestamp chunk) importance),
                       Send (cd_websocket chunk)
                         (Ev_transcription transcription_text enhanced_notes
                            (cd_timestamp chunk) (length buf))]\<rparr>"
    and due: "due = (60 \<le> time_trigger e - last_synthesis_time s lecture_id
                       \<or> last_synthesis_time s lecture_id = 0)"
    and prior: "prior = [frag_text (buf ! (length buf - 3)), frag_text (buf ! (length buf - 2))]"
    and s7: "s7 = record_action (Call_detect transcription_text prior) s6"
  shows "(3 \<le> length buf \<and> due \<longrightarrow>
            process_chunk e lecture_id chunk s
              = after_synthesis chunk (synthesize_notes e lecture_id (cd_websocket chunk) s6))
       \<and> (3 \<le> length buf \<and> \<not> due \<and> detect_topic_shift e transcription_text prior = Inr True \<longrightarrow>
            process_chunk e lecture_id chunk s
              = after_synthesis chunk (synthesize_notes e lecture_id (cd_websocket chunk) s7))
       \<and> (3 \<le> length buf \<and> \<not> due \<and> detect_topic_shift e transcription_text prior = Inr False \<longrightarrow>
            process_chunk e lecture_id chunk s
              = (Next, record_action (Unlink (cd_file_path chunk)) s7))
       \<and> (3 \<le> length buf \<and> \<not> due \<and> detect_topic_shift e transcription_text prior = Inl err \<longrightarrow>
            process_chunk e lecture_id chunk s = (Fatal err, s7))
       \<and> (length buf < 3 \<longrightarrow>
            process_chunk e lecture_id chunk s
              = (Next, record_action (Unlink (cd_file_path chunk)) s6))
       \<and> trigger_rule e lecture_id s6
           = (3 \<le> length buf
              \<and> (due \<or> detect_topic_shift e transcription_text prior = Inr True))"
proof -
  have reach: "process_chunk e lecture_id chunk s = evaluate_and_synthesize e lecture_id chunk s6"
    using process_chunk_reaches_trigger[OF tr tx ne q en segs sc imp buf sent s6] .
  have b6: "buf = transcription_buffers s6 lecture_id" using s6 by simp
  have l6: "last_synthesis_time s6 lecture_id = last_synthesis_time s lecture_id"
    using s6 by simp
  have newest: "transcription_text = frag_text (buf ! (length buf - 1))"
    using buf by simp
  have due6: "due = (60 \<le> time_trigger e - last_synthesis_time s6 lecture_id
                       \<or> last_synthesis_time s6 lecture_id = 0)"
    using due l6 by simp
  have rule: "trigger_rule e lecture_id s6
           = (3 \<le> length buf
              \<and> (due \<or> detect_topic_shift e transcription_text prior = Inr True))"
    using b6 due6 newest prior by (auto simp add: trigger_rule_def Let_def)
  show ?thesis
    using evaluate_and_synthesize_cases[OF due6 b6 newest prior s7, of chunk err] reach rule
    by simp
qed


theorem trigger_after_append_witness:
  "transcribe_local (scenario_env ''C'' 40) (cd_file_path chunk_c)
     = Inr \<lparr>tr_text = Some ''C'', tr_language = None, tr_duration = None, tr_segments = None\<rparr>
   \<and> last_synthesis_time state_ab ''lec'' = 0
   \<and> process_chunk (scenario_env ''C'' 40) ''lec'' chunk_c state_ab
       = after_synthesis chunk_c
           (synthesize_notes (scenario_env ''C'' 40) ''lec'' 1
              (state_ab\<lparr>transcription_buffers :=
                   (\<lambda>_. [])(''lec'' := [fragment_of ''A'' 0, fragment_of ''B'' 20000,
                                          fragment_of ''C'' 40000]),
                 trace := [Call_transcribe (''lec'', 40000), Call_query ''C'' ''lec'' 5,
                           Call_enrich ''C'' [] ''lec'', Call_score ''C'' [],
                           Save (Saved_transcription ''lec'' 2 ''C'' ''notes'' 40000 (1 / 2)),
                           Send 1 (Ev_transcription ''C'' ''notes'' 40000 3)]\<rparr>))
   \<and> structured_notes_history
         (snd (process_chunk (scenario_env ''C'' 40) ''lec'' chunk_c state_ab)) ''lec'' = [''S'']
   \<and> process_chunk (scenario_env ''C'' 40) ''lec'' chunk_c init_state
       = (Next,
          init_state\<lparr>transcription_buffers := (\<lambda>_. [])(''lec'' := [fragment_of ''C'' 40000]),
            trace := [Call_transcribe (''lec'', 40000), Call_query ''C'' ''lec'' 5,
                      Call_enrich ''C'' [] ''lec'', Call_score ''C'' [],
                      Save (Saved_transcription ''lec'' 0 ''C'' ''notes'' 40000 (1 / 2)),
                      Send 1 (Ev_transcription ''C'' ''notes'' 40000 1),
                      Unlink (''lec'', 40000)]\<rparr>)"
  using trigger_after_append
          [where e = "scenario_env ''C'' 40" and chunk = chunk_c and lecture_id = "''lec''"
             and s = state_ab and transcription_text = "''C''" and rag = "[]"
             and enhanced_notes = "''notes''" and segments = "[]" and importance_result = None
             and r = "\<lparr>tr_text = Some ''C'', tr_language = None, tr_duration = None,
                       tr_segments = None\<rparr>",
           OF _ _ _ _ _ _ _ refl refl _ refl refl refl refl]
        trigger_after_append
          [where e = "scenario_env ''C'' 40" and chunk = chunk_c and lecture_id = "''lec''"
             and s = init_state and transcription_text = "''C''" and rag = "[]"
             and enhanced_notes = "''notes''" and segments = "[]" and importance_result = None
             and r = "\<lparr>tr_text = Some ''C'', tr_language = None, tr_duration = None,
                       tr_segments = None\<rparr>",
           OF _ _ _ _ _ _ _ refl refl _ refl refl refl refl]
  by (simp add: scenario_env_def chunk_c_def state_ab_def init_state_def fragment_of_def
        strip_def is_space_def record_action_def after_synthesis_def synthesize_notes_def
        synthesize_notes_body_def push_def last_three_def last_one_def py_int_def Let_def)

section \<open>Empty transcriptions\<close>

text \<open>
  Claim C8. When the transcription of a segment is empty or consists of whitespace only,
  the worker goes on to the next queue item: the state it leaves is the one it found, with
  the call of the transcription added to the trace. So the fragment is not appended to
  the buffer, \<^verbatim>\<open>score_importance\<close> and \<^verbatim>\<open>save_transcription\<close> are not
  called, and no \<^verbatim>\<open>transcription\<close> event is pushed.
\<close>
theorem empty_transcription_short_circuits:
  assumes "transcribe_local e (cd_file_path chunk) = Inr r"
    and "\<forall>c\<in>set (case tr_text r of None \<Rightarrow> [] | Some t \<Rightarrow> t). is_space c"
  shows "process_chunk e lecture_id chunk s
           = (Next, s\<lparr>trace := trace s @ [Call_transcribe (cd_file_path chunk)]\<rparr>)"
  using assms strip_empty_iff[of "case tr_text r of None \<Rightarrow> [] | Some t \<Rightarrow> t"]
  by (simp add: process_chunk_def record_action_def Let_def)

theorem empty_transcription_short_circuits_witness:
  "transcribe_local (scenario_env [CHR 0x20, CHR 0x0A] 0) (''lec'', 0)
      = Inr \<lparr>tr_text = Some [CHR 0x20, CHR 0x0A], tr_language = None, tr_duration = None, tr_segments = None\<rparr>
   \<and> is_space (CHR 0x20) \<and> is_space (CHR 0x0A)
   \<and> process_chunk (scenario_env [CHR 0x20, CHR 0x0A] 0) ''lec''
        \<lparr>cd_file_path = (''lec'', 0), cd_timestamp = 0, cd_websocket = 1\<rparr> state_abc
      = (Next, state_abc\<lparr>trace := trace state_abc @ [Call_transcribe (''lec'', 0)]\<rparr>)"
  using empty_transcription_short_circuits
     [of "scenario_env [CHR 0x20, CHR 0x0A] 0" "\<lparr>cd_file_path = (''lec'', 0), cd_timestamp = 0, cd_websocket = 1\<rparr>"
         "\<lparr>tr_text = Some [CHR 0x20, CHR 0x0A], tr_language = None, tr_duration = None, tr_segments = None\<rparr>" "''lec''" state_abc]
  by (simp add: scenario_env_def is_space_def)

section \<open>Final synthesis: failure\<close>

text \<open>
  Claim C7. Whenever final synthesis fails, a \<^verbatim>\<open>final_synthesis_error\<close> event is
  pushed, and no retry is attempted. The code run on a session with one structured note and
  a final-synthesis collaborator that returns \<^verbatim>\<open>{"success": False}\<close>: after
  \<^verbatim>\<open>final_synthesis_started\<close> the collaborator is called once, the
  \<^verbatim>\<open>else\<close> branch of line 382 logs a warning, and nothing more is pushed; no
  \<^verbatim>\<open>final_synthesis_error\<close> reaches the client.
\<close>
theorem final_synthesis_soft_failure_silent:
  "final_synthesis final_failure_env ''lec'' 1 state_noted
     = (None, state_noted\<lparr>trace :=
          [Send 1 Ev_final_synthesis_started, Call_query ''A B C'' ''lec'' 15,
           Call_final ''lec'' [''S''] []]\<rparr>)"
  by (simp add: final_synthesis_def final_synthesis_body_def final_failure_env_def
        state_noted_def scenario_env_def state_abc_def init_state_def fragment_of_def
        push_def record_action_def Let_def)

text \<open>
  The two ways the collaborator can fail once final synthesis has started: when it raises,
  the handler of line 385 pushes \<^verbatim>\<open>final_synthesis_error\<close> with the text of the
  exception; when it returns a result whose \<^verbatim>\<open>success\<close> is false, nothing is
  pushed. The collaborator is called once in both.
\<close>
lemma final_synthesis_failure:
  assumes hist: "structured_notes_history s lecture_id \<noteq> []"
    and st: "send_json e ws Ev_final_synthesis_started = None"
    and q: "query_documents e (join_space (map frag_text (transcription_buffers s lecture_id)))
              lecture_id 15 = Inr rag"
  shows "(synthesize_final_notes e lecture_id (structured_notes_history s lecture_id) rag = Inl err
          \<longrightarrow> final_synthesis e lecture_id ws s
               = (send_json e ws (Ev_final_synthesis_error err),
                  s\<lparr>trace := trace s @
                     [Send ws Ev_final_synthesis_started,
                      Call_query (join_space (map frag_text (transcription_buffers s lecture_id)))
                        lecture_id 15,
                      Call_final lecture_id (structured_notes_history s lecture_id) rag,
                      Send ws (Ev_final_synthesis_error err)]\<rparr>))
       \<and> (synthesize_final_notes e lecture_id (structured_notes_history s lecture_id) rag = Inr r
            \<and> fr_success r = Some False
          \<longrightarrow> final_synthesis e lecture_id ws s
               = (None,
                  s\<lparr>trace := trace s @
                     [Send ws Ev_final_synthesis_started,
                      Call_query (join_space (map frag_text (transcription_buffers s lecture_id)))
                        lecture_id 15,
                      Call_final lecture_id (structured_notes_history s lecture_id) rag]\<rparr>))"
  using assms
  by (simp add: final_synthesis_def final_synthesis_body_def push_def record_action_def Let_def)

section \<open>The stop and request-final signals\<close>





section \<open>Reconnection\<close>




section \<open>The chunk index of a saved fragment\<close>





text \<open>
  The rounds of the scenario, with arbitrary clock readings, unfold through these
  definitions.
\<close>
lemmas run_defs = arrive_def scenario_start_def scenario_env_def init_state_def
  receive_audio_chunk_def process_audio_chunk_def websocket_connect_def create_task_def
  worker_round_def process_chunk_def store_transcription_def evaluate_and_synthesize_def
  should_synthesize_def synthesize_notes_def synthesize_notes_body_def push_def
  record_action_def strip_def is_space_def last_three_def last_one_def all_but_last_def
  synthesis_attempted_def new_actions_def Let_def



section \<open>The end-to-end scenario\<close>

text \<open>
  Claim C4, as stated, at its own input: segments A, B, C arrive at 0, 20 and 40 seconds
  with no topic shift, and no synthesis runs after C; after D at 61 seconds the synthesis
  runs over B, C, D and the buffer becomes D alone. In the code the synthesis runs in the
  round of C (three fragments, and the last-synthesis time is still \<open>0\<close>), which leaves
  C alone in the buffer; in the round of D the buffer holds C and D, no synthesis runs,
  and the buffer stays C, D.
\<close>
theorem scenario_synthesizes_after_third:
  "synthesis_attempted (arrive ''B'' 20 (arrive ''A'' 0 scenario_start))
     (arrive ''C'' 40 (arrive ''B'' 20 (arrive ''A'' 0 scenario_start)))
   \<and> map frag_text (transcription_buffers
        (arrive ''D'' 61 (arrive ''C'' 40 (arrive ''B'' 20 (arrive ''A'' 0 scenario_start))))
        ''lec'') = [''C'', ''D'']"
  by code_simp

text \<open>
  Claim C4, amended. In the scenario (every collaborator answers, no topic shift is
  detected), whatever the four arrival times: no synthesis runs after A or after B; the
  synthesis runs after C over the fragments A, B, C, and the buffer becomes C alone; after
  D the buffer holds C and D, and no synthesis runs.
\<close>
theorem scenario_first_synthesis_after_third:
  "\<not> synthesis_attempted scenario_start (arrive ''A'' t1 scenario_start)
   \<and> \<not> synthesis_attempted (arrive ''A'' t1 scenario_start)
         (arrive ''B'' t2 (arrive ''A'' t1 scenario_start))
   \<and> synthesis_attempted (arrive ''B'' t2 (arrive ''A'' t1 scenario_start))
       (arrive ''C'' t3 (arrive ''B'' t2 (arrive ''A'' t1 scenario_start)))
   \<and> Call_synthesize [fragment_of ''A'' (py_int (t1 * 1000)),
                        fragment_of ''B'' (py_int (t2 * 1000)),
                        fragment_of ''C'' (py_int (t3 * 1000))] [] ''lec'' None
       \<in> set (trace (arrive ''C'' t3 (arrive ''B'' t2 (arrive ''A'' t1 scenario_start))))
   \<and> map frag_text (transcription_buffers
        (arrive ''C'' t3 (arrive ''B'' t2 (arrive ''A'' t1 scenario_start))) ''lec'') = [''C'']
   \<and> \<not> synthesis_attempted (arrive ''C'' t3 (arrive ''B'' t2 (arrive ''A'' t1 scenario_start)))
         (arrive ''D'' t4 (arrive ''C'' t3 (arrive ''B'' t2 (arrive ''A'' t1 scenario_start))))
   \<and> map frag_text (transcription_buffers
        (arrive ''D'' t4 (arrive ''C'' t3 (arrive ''B'' t2 (arrive ''A'' t1 scenario_start))))
        ''lec'') = [''C'', ''D'']"
  by (simp add: run_defs fragment_of_def)

end
